theory Spec2Isabelle
  imports Main
begin

section \<open>Go values: byte strings, machine integers, failures\<close>

text \<open>
  A Go \<^verbatim>\<open>string\<close> is a sequence of bytes and is modelled as \<^typ>\<open>string\<close>.
  A Go \<^verbatim>\<open>int\<close> is 64 bits wide; it is modelled as \<^typ>\<open>int\<close>, every value that
  enters the program comes out of \<^verbatim>\<open>strconv.Atoi\<close>, which refuses what does not fit,
  and the one place where the program can leave the range (\<^verbatim>\<open>x--\<close>) wraps explicitly.

  A function of the program can end in three ways: it returns a value, it returns a
  non-nil \<^verbatim>\<open>error\<close>, or a run-time panic unwinds it. The last two are the
  constructors of \<open>failure\<close>; a result is \<open>failure + 'a\<close>.
\<close>

datatype failure =
    ErrMissingClosingBrace    \<comment> \<open>\<^verbatim>\<open>fmt.Errorf("missing closing brace")\<close>\<close>
  | ErrEmptyPlaceholder       \<comment> \<open>\<^verbatim>\<open>fmt.Errorf("empty placeholder")\<close>\<close>
  | ErrSyntax                 \<comment> \<open>\<^verbatim>\<open>strconv.ErrSyntax\<close>, from \<^verbatim>\<open>Atoi\<close>\<close>
  | ErrRange                  \<comment> \<open>\<^verbatim>\<open>strconv.ErrRange\<close>, from \<^verbatim>\<open>Atoi\<close>\<close>
  | PanicIndexOutOfRange      \<comment> \<open>run-time panic: index out of range\<close>
  | PanicNilDereference       \<comment> \<open>run-time panic: nil pointer dereference\<close>

definition minInt :: int where
  "minInt = - (2 ^ 63)"

definition maxInt :: int where
  "maxInt = 2 ^ 63 - 1"

text \<open>\<^verbatim>\<open>xs[i]\<close> on a Go slice: a panic unless \<open>0 \<le> i < len(xs)\<close>.\<close>

definition at :: "'a list \<Rightarrow> int \<Rightarrow> failure + 'a" where
  "at xs i = (if 0 \<le> i \<and> i < int (length xs) then Inr (xs ! nat i) else Inl PanicIndexOutOfRange)"

text \<open>\<^verbatim>\<open>s[a:b]\<close>; the program only takes it with \<open>a \<le> b \<le> len(s)\<close>.\<close>

definition slice_of :: "'a list \<Rightarrow> nat \<Rightarrow> nat \<Rightarrow> 'a list" where
  "slice_of s a b = take (b - a) (drop a s)"

section \<open>The library functions the program calls\<close>

subsection \<open>Package strings\<close>

text \<open>\<^verbatim>\<open>strings.IndexByte\<close>: the first position of the byte, or \<open>-1\<close>.\<close>

fun index_from :: "int \<Rightarrow> string \<Rightarrow> char \<Rightarrow> int" where
  "index_from i [] c = - 1"
| "index_from i (x # xs) c = (if x = c then i else index_from (i + 1) xs c)"

definition IndexByte :: "string \<Rightarrow> char \<Rightarrow> int" where
  "IndexByte s c = index_from 0 s c"

text \<open>\<^verbatim>\<open>strings.Split(s, sep)\<close> for a one-byte separator: never the empty list.\<close>

fun Split :: "string \<Rightarrow> char \<Rightarrow> string list" where
  "Split [] sep = [[]]"
| "Split (c # cs) sep =
     (if c = sep then [] # Split cs sep
      else (case Split cs sep of [] \<Rightarrow> [[c]] | x # xs \<Rightarrow> (c # x) # xs))"

text \<open>\<^verbatim>\<open>strings.Join(elems, sep)\<close>.\<close>

fun Join_strings :: "string list \<Rightarrow> string \<Rightarrow> string" where
  "Join_strings [] sep = []"
| "Join_strings [x] sep = x"
| "Join_strings (x # y # ys) sep = x @ sep @ Join_strings (y # ys) sep"

text \<open>\<^verbatim>\<open>strings.Trim(s, cutset)\<close> for a one-byte cutset, and \<^verbatim>\<open>strings.TrimPrefix\<close>.\<close>

definition Trim :: "string \<Rightarrow> char \<Rightarrow> string" where
  "Trim s c = rev (dropWhile (\<lambda>x. x = c) (rev (dropWhile (\<lambda>x. x = c) s)))"

definition TrimPrefix :: "string \<Rightarrow> string \<Rightarrow> string" where
  "TrimPrefix s p = (if take (length p) s = p then drop (length p) s else s)"

text \<open>
  \<^verbatim>\<open>strings.ToLower\<close>, \<^verbatim>\<open>unicode.ToTitle\<close> and \<^verbatim>\<open>strings.Title\<close> work on the runes
  of a string. They are modelled on ASCII text only, where a rune is a byte: the model is
  what the library does on a string whose bytes are all below \<open>0x80\<close> (\<open>ascii\<close>), and
  says nothing of the library on any other string, where it leaves the bytes from
  \<open>0x80\<close> on as they are. Every theorem that reads these functions on a string that
  is not a literal assumes that the string is ASCII.
  \<^verbatim>\<open>Title\<close> maps over the string with the previous character as state, starting from
  a space, and puts a character in title case when the previous one \<^verbatim>\<open>isSeparator\<close>:
  any ASCII character but a letter, a digit or the underscore.
\<close>

definition code_of :: "char \<Rightarrow> int" where
  "code_of c = of_char c"

definition ascii :: "char \<Rightarrow> bool" where
  "ascii c = (code_of c \<le> 127)"

definition isUpper :: "char \<Rightarrow> bool" where
  "isUpper c = (65 \<le> code_of c \<and> code_of c \<le> 90)"

definition isLower :: "char \<Rightarrow> bool" where
  "isLower c = (97 \<le> code_of c \<and> code_of c \<le> 122)"

definition isNumber :: "char \<Rightarrow> bool" where
  "isNumber c = (48 \<le> code_of c \<and> code_of c \<le> 57)"

definition isSign :: "char \<Rightarrow> bool" where
  "isSign c = (c = CHR ''-'')"

definition toLower :: "char \<Rightarrow> char" where
  "toLower c = (if isUpper c then char_of (code_of c + 32) else c)"

definition ToTitle :: "char \<Rightarrow> char" where
  "ToTitle c = (if isLower c then char_of (code_of c - 32) else c)"

definition ToLower :: "string \<Rightarrow> string" where
  "ToLower s = map toLower s"

definition isSeparator :: "char \<Rightarrow> bool" where
  "isSeparator c =
     (if code_of c \<le> 127
      then (if isNumber c then False
            else if isLower c then False
            else if isUpper c then False
            else if c = CHR ''_'' then False
            else True)
      else False)"

fun title_from :: "char \<Rightarrow> string \<Rightarrow> string" where
  "title_from prev [] = []"
| "title_from prev (r # rs) =
     (if isSeparator prev then ToTitle r else r) # title_from r rs"

definition Title :: "string \<Rightarrow> string" where
  "Title s = title_from CHR '' '' s"

text \<open>\<^verbatim>\<open>strings.ReplaceAll(s, old, new)\<close> for a one-byte \<open>old\<close>.\<close>

definition ReplaceAll :: "string \<Rightarrow> char \<Rightarrow> string \<Rightarrow> string" where
  "ReplaceAll s old new = concat (map (\<lambda>c. if c = old then new else [c]) s)"

subsection \<open>Package strconv and fmt\<close>

text \<open>
  \<^verbatim>\<open>strconv.Atoi\<close>: an optional sign \<open>+\<close> or \<open>-\<close>, then one decimal digit or more and
  nothing else. The digits are read from the left into an unsigned 64-bit number, as
  \<^verbatim>\<open>ParseUint\<close> does: the first byte that is no digit is \<^verbatim>\<open>ErrSyntax\<close>, and the first
  digit that the number cannot take is \<^verbatim>\<open>ErrRange\<close>, whichever comes first; a number
  that no \<^verbatim>\<open>int\<close> holds is \<^verbatim>\<open>ErrRange\<close> as well.
\<close>

definition maxUint64 :: int where
  "maxUint64 = 2 ^ 64 - 1"

fun ParseUint_loop :: "int \<Rightarrow> string \<Rightarrow> failure + int" where
  "ParseUint_loop n [] = Inr n"
| "ParseUint_loop n (c # s) =
     (if isNumber c then
        (if maxUint64 div 10 + 1 \<le> n then Inl ErrRange
         else if maxUint64 < n * 10 + (code_of c - 48) then Inl ErrRange
         else ParseUint_loop (n * 10 + (code_of c - 48)) s)
      else Inl ErrSyntax)"

definition Atoi :: "string \<Rightarrow> failure + int" where
  "Atoi s =
     (if s = [] then Inl ErrSyntax
      else let s1 = (if hd s = CHR ''-'' \<or> hd s = CHR ''+'' then tl s else s) in
        if s1 = [] then Inl ErrSyntax
        else case ParseUint_loop 0 s1 of
               Inl err \<Rightarrow> Inl err
             | Inr un \<Rightarrow>
                 if hd s = CHR ''-'' then (if maxInt + 1 < un then Inl ErrRange else Inr (- un))
                 else (if maxInt < un then Inl ErrRange else Inr un))"

text \<open>
  \<^verbatim>\<open>strconv.Itoa\<close>, and \<^verbatim>\<open>fmt.Sprintf("%0wd", n)\<close>: the zeros go after the sign.
  \<open>decimal\<close> writes a number that is not negative.
\<close>

function decimal :: "int \<Rightarrow> string" where
  "decimal n =
     (if n < 10 then [char_of (48 + n)]
      else decimal (n div 10) @ [char_of (48 + n mod 10)])"
  by pat_completeness auto
termination
  by (relation "measure nat") auto

declare decimal.simps [simp del]

definition Itoa :: "int \<Rightarrow> string" where
  "Itoa n = (if n < 0 then CHR ''-'' # decimal (- n) else decimal n)"

definition zero_pad :: "nat \<Rightarrow> string \<Rightarrow> string" where
  "zero_pad w s = replicate (w - length s) CHR ''0'' @ s"

definition Sprintf_0d :: "nat \<Rightarrow> int \<Rightarrow> string" where
  "Sprintf_0d w n =
     (if n < 0 then CHR ''-'' # zero_pad (w - 1) (decimal (- n))
      else zero_pad w (decimal n))"

subsection \<open>Package path/filepath (Unix)\<close>

text \<open>
  \<^verbatim>\<open>filepath.Clean\<close> follows the rules of its documentation, element by element: an
  empty element (a repeated separator) and \<open>.\<close> are dropped; \<open>..\<close> removes the element
  before it unless there is none or it is \<open>..\<close> itself, where a rooted path drops the
  \<open>..\<close> and any other path keeps it; the result is \<open>.\<close> when nothing is left, and of
  the empty path.
\<close>

definition clean_step :: "bool \<Rightarrow> string list \<Rightarrow> string \<Rightarrow> string list" where
  "clean_step rooted out elem =
     (if elem = [] then out
      else if elem = ''.'' then out
      else if elem = ''..'' then
        (if out = [] then (if rooted then out else out @ [''..''])
         else if last out = ''..'' then out @ [''..'']
         else butlast out)
      else out @ [elem])"

definition Clean :: "string \<Rightarrow> string" where
  "Clean path =
     (if path = [] then ''.''
      else let rooted = (hd path = CHR ''/'');
               out = foldl (clean_step rooted) [] (Split path CHR ''/'');
               res = (if rooted then ''/'' else []) @ Join_strings out ''/''
           in if res = [] then ''.'' else res)"

text \<open>\<^verbatim>\<open>filepath.Dir\<close>: \<^verbatim>\<open>Clean\<close> of the path up to and with its last separator.\<close>

definition Dir :: "string \<Rightarrow> string" where
  "Dir path = Clean (rev (dropWhile (\<lambda>c. c \<noteq> CHR ''/'') (rev path)))"

text \<open>
  \<^verbatim>\<open>filepath.Join\<close>: from the first element that is not empty on, the elements are
  joined with the separator and the result is cleaned; the empty string when every
  element is empty.
\<close>

definition Join :: "string list \<Rightarrow> string" where
  "Join elem =
     (case dropWhile (\<lambda>e. e = []) elem of
        [] \<Rightarrow> []
      | e # es \<Rightarrow> Clean (Join_strings (e # es) ''/''))"

subsection \<open>Package time\<close>

text \<open>
  A \<^verbatim>\<open>time.Time\<close> in UTC is the number of seconds since 1970-01-01T00:00:00Z. Its
  calendar fields follow the proleptic Gregorian calendar: \<open>civil_from_days\<close> turns a day
  number into year, month and day, \<open>days_from_civil\<close> is the way back, and \<open>Date\<close> is
  \<^verbatim>\<open>time.Date(y, m, d, h, min, s, 0, time.UTC)\<close> on fields that are in range.
\<close>

datatype Time = UnixTime (Unix: int)

definition days_from_civil :: "int \<Rightarrow> int \<Rightarrow> int \<Rightarrow> int" where
  "days_from_civil y m d =
     (let y1 = (if m \<le> 2 then y - 1 else y);
          era = y1 div 400;
          yoe = y1 - era * 400;
          doy = (153 * (if 2 < m then m - 3 else m + 9) + 2) div 5 + d - 1;
          doe = yoe * 365 + yoe div 4 - yoe div 100 + doy
      in era * 146097 + doe - 719468)"

definition civil_from_days :: "int \<Rightarrow> int \<times> int \<times> int" where
  "civil_from_days z =
     (let z1 = z + 719468;
          era = z1 div 146097;
          doe = z1 mod 146097;
          yoe = (doe - doe div 1460 + doe div 36524 - doe div 146096) div 365;
          doy = doe - (365 * yoe + yoe div 4 - yoe div 100);
          mp = (5 * doy + 2) div 153;
          d = doy - (153 * mp + 2) div 5 + 1;
          m = (if mp < 10 then mp + 3 else mp - 9);
          y = yoe + era * 400
      in (if m \<le> 2 then y + 1 else y, m, d))"

definition Date :: "int \<Rightarrow> int \<Rightarrow> int \<Rightarrow> int \<Rightarrow> int \<Rightarrow> int \<Rightarrow> Time" where
  "Date y m d h mi s = UnixTime (days_from_civil y m d * 86400 + h * 3600 + mi * 60 + s)"

definition Year :: "Time \<Rightarrow> int" where
  "Year t = fst (civil_from_days (Unix t div 86400))"

definition Month :: "Time \<Rightarrow> int" where
  "Month t = fst (snd (civil_from_days (Unix t div 86400)))"

definition Day :: "Time \<Rightarrow> int" where
  "Day t = snd (snd (civil_from_days (Unix t div 86400)))"

definition YearDay :: "Time \<Rightarrow> int" where
  "YearDay t = Unix t div 86400 - days_from_civil (Year t) 1 1 + 1"

definition Hour :: "Time \<Rightarrow> int" where
  "Hour t = (Unix t mod 86400) div 3600"

definition Minute :: "Time \<Rightarrow> int" where
  "Minute t = (Unix t mod 3600) div 60"

definition Second :: "Time \<Rightarrow> int" where
  "Second t = Unix t mod 60"

section \<open>The data model\<close>

text \<open>
  Modelled from the spec: the struct \<^verbatim>\<open>Data\<close>, which the package declares in another
  file. Its fields are the ones the resolvers read, with the types of the specification's
  data model: strings, an integer level and a timestamp.
\<close>

record Data =
  Source :: string
  Model :: string
  Mime :: string
  Type :: string
  Level :: int
  AcqTime :: Time
  File :: string

text \<open>
  The seven types that implement \<^verbatim>\<open>Resolver\<close>. A \<^verbatim>\<open>Pattern\<close> embeds a
  \<^verbatim>\<open>Resolver\<close> interface value, which is nil (\<open>None\<close>) until \<^verbatim>\<open>Set\<close> stores one.
\<close>

datatype resolver =
    Empty
  | Path "resolver list"
  | Literal string
  | Index int
  | Slice int int
  | Fragment string
  | Compound "resolver list"

record Pattern =
  Resolver :: "resolver option"

section \<open>The template parser\<close>

definition lcurly :: char where
  "lcurly = CHR ''{''"

definition rcurly :: char where
  "rcurly = CHR ''}''"

definition colon :: char where
  "colon = CHR '':''"

text \<open>
  \<^verbatim>\<open>parseResolver\<close> reads \<^verbatim>\<open>str[0]\<close> first: on the empty string that is a panic.
  Where \<^verbatim>\<open>Atoi\<close> fails the error is returned (the resolver returned beside it is
  dropped by every caller).
\<close>

definition parseResolver :: "string \<Rightarrow> failure + resolver" where
  "parseResolver str =
     (case at str 0 of
        Inl e \<Rightarrow> Inl e
      | Inr c \<Rightarrow>
          if \<not> (isNumber c \<or> isSign c) then Inr (Fragment str)
          else let x = IndexByte str colon in
            if x < 0 then
              (case Atoi str of Inl err \<Rightarrow> Inl err | Inr i \<Rightarrow> Inr (Index i))
            else
              (case Atoi (slice_of str 0 (nat x)) of
                 Inl err \<Rightarrow> Inl err
               | Inr b \<Rightarrow>
                   (case Atoi (slice_of str (nat x + 1) (length str)) of
                      Inl err \<Rightarrow> Inl err
                    | Inr e \<Rightarrow> Inr (Slice b e))))"

text \<open>
  The loop of \<^verbatim>\<open>parse\<close>, with its variables \<open>offset\<close> and \<open>rs\<close> as arguments; it
  returns them as they are when the loop is left. \<open>start\<close> is a position in
  \<^verbatim>\<open>str[offset:]\<close> and \<open>stop\<close> (the source's \<^verbatim>\<open>end\<close>) a position in
  \<^verbatim>\<open>str[offset+start:]\<close>, as in the source.
\<close>

function parse_loop :: "string \<Rightarrow> nat \<Rightarrow> resolver list \<Rightarrow> failure + (nat \<times> resolver list)" where
  "parse_loop str offset rs =
     (if offset < length str then
        (let start = IndexByte (drop offset str) lcurly in
         if start < 0 then Inr (offset, rs)
         else
           (let stop = IndexByte (drop (offset + nat start) str) rcurly in
            if stop < 0 then Inl ErrMissingClosingBrace
            else if stop - start = 1 then Inl ErrEmptyPlaceholder
            else
              (let q = slice_of str offset (offset + nat start);
                   rs1 = (if 0 < length q then rs @ [Literal q] else rs);
                   offset1 = offset + nat start + 1
               in case parseResolver (slice_of str offset1 (offset1 + nat stop - 1)) of
                    Inl err \<Rightarrow> Inl err
                  | Inr r \<Rightarrow> parse_loop str (offset1 + nat stop) (rs1 @ [r]))))
      else Inr (offset, rs))"
  by pat_completeness auto
termination
  by (relation "measure (\<lambda>(str, offset, rs). length str - offset)") auto

declare parse_loop.simps [simp del]

definition parse :: "string \<Rightarrow> failure + resolver" where
  "parse str =
     (case parse_loop str 0 [] of
        Inl err \<Rightarrow> Inl err
      | Inr (offset, rs) \<Rightarrow>
          (let rs1 = (if 0 < length (drop offset str) then rs @ [Literal (drop offset str)] else rs)
           in if length rs1 = 1 then Inr (hd rs1) else Inr (Compound rs1)))"

text \<open>The loop of \<^verbatim>\<open>ParseResolver\<close> over the parts: the first error ends it.\<close>

fun parse_parts :: "string list \<Rightarrow> resolver list \<Rightarrow> failure + resolver list" where
  "parse_parts [] rs = Inr rs"
| "parse_parts (p # parts) rs =
     (case parse p of
        Inl err \<Rightarrow> Inl err
      | Inr r \<Rightarrow> parse_parts parts (rs @ [r]))"

definition ParseResolver :: "string \<Rightarrow> failure + resolver" where
  "ParseResolver str =
     (if str = [] then Inr Empty
      else case parse_parts (Split (Trim str CHR ''/'') CHR ''/'') [] of
             Inl err \<Rightarrow> Inl err
           | Inr rs \<Rightarrow> Inr (Path rs))"

section \<open>Resolution\<close>

definition levelLevel :: string where "levelLevel = ''level''"
definition levelSource :: string where "levelSource = ''source''"
definition levelModel :: string where "levelModel = ''model''"
definition levelMime :: string where "levelMime = ''mime''"
definition levelFormat :: string where "levelFormat = ''format''"
definition levelType :: string where "levelType = ''type''"
definition levelRun :: string where "levelRun = ''run''"
definition levelYear :: string where "levelYear = ''year''"
definition levelDoy :: string where "levelDoy = ''doy''"
definition levelMonth :: string where "levelMonth = ''month''"
definition levelDay :: string where "levelDay = ''day''"
definition levelHour :: string where "levelHour = ''hour''"
definition levelMinLong :: string where "levelMinLong = ''minute''"
definition levelMinShort :: string where "levelMinShort = ''min''"
definition levelSecLong :: string where "levelSecLong = ''second''"
definition levelSecShort :: string where "levelSecShort = ''sec''"
definition levelStamp :: string where "levelStamp = ''timestamp''"

lemmas level_defs =
  levelLevel_def levelSource_def levelModel_def levelMime_def levelFormat_def levelType_def
  levelRun_def levelYear_def levelDoy_def levelMonth_def levelDay_def levelHour_def
  levelMinLong_def levelMinShort_def levelSecLong_def levelSecShort_def levelStamp_def

text \<open>The directory segments that \<^verbatim>\<open>index\<close>, \<^verbatim>\<open>slice\<close> and \<^verbatim>\<open>fragment\<close> address.\<close>

definition segments :: "string \<Rightarrow> string list" where
  "segments file = Split (TrimPrefix (Dir file) ''/'') CHR ''/''"

definition index_Resolve :: "int \<Rightarrow> Data \<Rightarrow> failure + string" where
  "index_Resolve i dat =
     (let xs = segments (File dat)
      in if i < int (length xs) then at xs i else Inr [])"

text \<open>\<open>n\<close> is the source's \<^verbatim>\<open>size\<close>.\<close>

definition normalize :: "int \<Rightarrow> int \<Rightarrow> int" where
  "normalize index n =
     (let index1 = (if index < 0 then n + index else index)
      in if index1 < 0 then 0
         else if n \<le> index1 then n
         else index1)"

definition slice_Resolve :: "int \<Rightarrow> int \<Rightarrow> Data \<Rightarrow> failure + string" where
  "slice_Resolve b e dat =
     (let xs = segments (File dat);
          begin = normalize b (int (length xs));
          stop = normalize e (int (length xs))
      in if stop = begin then at xs begin
         else if begin < stop then Inr (Join (slice_of xs (nat begin) (nat stop)))
         else Inr [])"

definition splitMime :: "string \<Rightarrow> string" where
  "splitMime mime =
     (let ix = IndexByte mime CHR ''/'';
          mime1 = (if 0 \<le> ix \<and> ix + 1 < int (length mime)
                   then slice_of mime (nat ix + 1) (length mime) else mime);
          ix1 = IndexByte mime1 CHR '';''
      in if 0 \<le> ix1 then slice_of mime1 0 (nat ix1) else mime1)"

definition replace :: "string \<Rightarrow> string" where
  "replace str = ReplaceAll (Title str) CHR '' '' []"

text \<open>\<^verbatim>\<open>x--\<close> on a 64-bit \<^verbatim>\<open>int\<close>.\<close>

definition decrement :: "int \<Rightarrow> int" where
  "decrement x = (if x = minInt then maxInt else x - 1)"

definition fragment_Resolve :: "string \<Rightarrow> Data \<Rightarrow> failure + string" where
  "fragment_Resolve name dat =
     (let key = ToLower name in
      if key = levelRun then Inr (Source dat)
      else if key = levelLevel then Inr (Itoa (Level dat))
      else if key = levelSource then Inr (replace (Source dat))
      else if key = levelModel then Inr (replace (Model dat))
      else if key = levelMime \<or> key = levelFormat then Inr (replace (splitMime (Mime dat)))
      else if key = levelType then Inr (replace (Type dat))
      else if key = levelYear then Inr (Itoa (Year (AcqTime dat)))
      else if key = levelDoy then Inr (Sprintf_0d 3 (YearDay (AcqTime dat)))
      else if key = levelMonth then Inr (Sprintf_0d 2 (Month (AcqTime dat)))
      else if key = levelDay then Inr (Sprintf_0d 2 (Day (AcqTime dat)))
      else if key = levelHour then Inr (Sprintf_0d 2 (Hour (AcqTime dat)))
      else if key = levelMinShort \<or> key = levelMinLong then Inr (Sprintf_0d 2 (Minute (AcqTime dat)))
      else if key = levelSecShort \<or> key = levelSecLong then Inr (Sprintf_0d 2 (Second (AcqTime dat)))
      else if key = levelStamp then Inr (Itoa (Unix (AcqTime dat)))
      else
        (case Atoi name of
           Inl err \<Rightarrow> Inr []
         | Inr x \<Rightarrow>
             (let xs = segments name;
                  x1 = decrement x
              in if x1 < int (length xs) then at xs x1 else Inr [])))"

text \<open>The results of the children in order; the first panic ends the loop.\<close>

fun collect :: "(failure + 'a) list \<Rightarrow> failure + 'a list" where
  "collect [] = Inr []"
| "collect (Inl e # rs) = Inl e"
| "collect (Inr x # rs) = (case collect rs of Inl e \<Rightarrow> Inl e | Inr xs \<Rightarrow> Inr (x # xs))"

fun Resolve :: "resolver \<Rightarrow> Data \<Rightarrow> failure + string" where
  "Resolve Empty dat = Inr []"
| "Resolve (Path rs) dat =
     (case collect (map (\<lambda>r. Resolve r dat) rs) of
        Inl e \<Rightarrow> Inl e
      | Inr str \<Rightarrow> Inr (Join str))"
| "Resolve (Literal s) dat = Inr s"
| "Resolve (Index i) dat = index_Resolve i dat"
| "Resolve (Slice b e) dat = slice_Resolve b e dat"
| "Resolve (Fragment name) dat = fragment_Resolve name dat"
| "Resolve (Compound rs) dat =
     (case collect (map (\<lambda>r. Resolve r dat) rs) of
        Inl e \<Rightarrow> Inl e
      | Inr str \<Rightarrow> Inr (concat str))"

section \<open>The pattern\<close>

text \<open>
  \<^verbatim>\<open>Set\<close> returns the pattern as it is afterwards and what \<^verbatim>\<open>ParseResolver\<close> failed
  with, if it did: the error it returned, or the panic that unwinds \<^verbatim>\<open>Set\<close> as well,
  before the assignment. \<^verbatim>\<open>p.Resolve(d)\<close> is the method of the embedded interface
  value: a nil pointer dereference when there is none.
\<close>

definition Set :: "Pattern \<Rightarrow> string \<Rightarrow> Pattern \<times> failure option" where
  "Set p str =
     (case ParseResolver str of
        Inr r \<Rightarrow> (p\<lparr>Resolver := Some r\<rparr>, None)
      | Inl err \<Rightarrow> (p, Some err))"

definition Pattern_Resolve :: "Pattern \<Rightarrow> Data \<Rightarrow> failure + string" where
  "Pattern_Resolve p dat =
     (case Resolver p of
        None \<Rightarrow> Inl PanicNilDereference
      | Some r \<Rightarrow> Resolve r dat)"

section \<open>A record to evaluate on\<close>

text \<open>The record of the specification's examples.\<close>

definition example_Data :: Data where
  "example_Data =
     \<lparr>Source = ''main unit'', Model = ''model a'', Mime = ''text/plain;charset=utf-8'',
      Type = ''image'', Level = 1, AcqTime = Date 2024 3 5 7 8 9, File = ''/a/b/c/d.dat''\<rparr>"

section \<open>The wording of the specification\<close>

text \<open>
  The specification describes the formatting of the source, model, mime and type
  fragments as: the first letter of every whitespace-delimited token in upper case, then
  all whitespace deleted. \<open>spec_title_case\<close> follows these words, to be compared with
  \<open>replace\<close>, which follows the source. White space is what \<^verbatim>\<open>unicode.IsSpace\<close>
  accepts in ASCII.
\<close>

definition isSpace :: "char \<Rightarrow> bool" where
  "isSpace c = (c = CHR '' '' \<or> (9 \<le> code_of c \<and> code_of c \<le> 13))"

fun spec_title_from :: "char \<Rightarrow> string \<Rightarrow> string" where
  "spec_title_from prev [] = []"
| "spec_title_from prev (c # cs) =
     (if isSpace c then spec_title_from c cs
      else (if isSpace prev then ToTitle c else c) # spec_title_from c cs)"

definition spec_title_case :: "string \<Rightarrow> string" where
  "spec_title_case s = spec_title_from CHR '' '' s"

text \<open>A character of a plain word, or the space between two words.\<close>

definition plain :: "char \<Rightarrow> bool" where
  "plain c = (isNumber c \<or> isLower c \<or> isUpper c \<or> c = CHR ''_'' \<or> c = CHR '' '')"

text \<open>A string has a doubled separator when two consecutive characters are the separator.\<close>

fun doubled :: "char \<Rightarrow> string \<Rightarrow> bool" where
  "doubled c (x # y # ys) = ((x = c \<and> y = c) \<or> doubled c (y # ys))"
| "doubled c [x] = False"
| "doubled c [] = False"

text \<open>A path element: not empty, and without a separator.\<close>

definition element :: "string \<Rightarrow> bool" where
  "element x = (x \<noteq> [] \<and> CHR ''/'' \<notin> set x)"

text \<open>A name: a path element other than \<open>.\<close> and \<open>..\<close>.\<close>

definition name_element :: "string \<Rightarrow> bool" where
  "name_element x = (if x = ''.'' then False else if x = ''..'' then False else element x)"

section \<open>Facts about the library functions\<close>

lemma Split_not_Nil: "Split s c \<noteq> []"
  by (induction s) (auto split: list.splits)

lemma length_Split_pos: "0 < length (Split s c)"
  using Split_not_Nil [of s c] by simp

lemma length_segments_pos: "0 < length (segments file)"
  by (simp add: segments_def Split_not_Nil)

lemma segments_example: "segments ''/a/b/c/d.dat'' = [''a'', ''b'', ''c'']"
  by code_simp

section \<open>The pattern: \<^verbatim>\<open>Set\<close> and \<^verbatim>\<open>Resolve\<close>\<close>

text \<open>
  C5, as stated: \<^verbatim>\<open>Resolve\<close> on a pattern that was never configured returns the empty
  string. The zero value of \<^verbatim>\<open>Pattern\<close> holds a nil \<^verbatim>\<open>Resolver\<close>, and calling
  \<^verbatim>\<open>Resolve\<close> through it is a nil pointer dereference: no string is returned.
\<close>

theorem unset_Pattern_Resolve_counterexample:
  "Pattern_Resolve \<lparr>Resolver = None\<rparr> example_Data \<noteq> Inr []"
  by (simp add: Pattern_Resolve_def)

text \<open>
  C5, amended: a pattern configured with the empty template holds the empty resolver and
  resolves every record to the empty string; a pattern that holds no resolver panics on
  every record.
\<close>

theorem empty_Pattern_Resolve:
  "Set p [] = (p\<lparr>Resolver := Some Empty\<rparr>, None) \<and>
   Pattern_Resolve (fst (Set p [])) dat = Inr [] \<and>
   Pattern_Resolve \<lparr>Resolver = None\<rparr> dat = Inl PanicNilDereference"
  by (simp add: Set_def ParseResolver_def Pattern_Resolve_def)

text \<open>
  C6: when the parse of the template fails, \<^verbatim>\<open>Set\<close> returns that failure and the
  pattern is as it was, so \<^verbatim>\<open>Resolve\<close> gives on every record what it gave before;
  when the parse succeeds, the pattern holds the parsed tree.
\<close>

theorem Set_keeps_or_replaces:
  "(ParseResolver str = Inl err \<longrightarrow>
      Set p str = (p, Some err) \<and>
      Pattern_Resolve (fst (Set p str)) dat = Pattern_Resolve p dat) \<and>
   (ParseResolver str = Inr r \<longrightarrow>
      Set p str = (p\<lparr>Resolver := Some r\<rparr>, None) \<and>
      Resolver (fst (Set p str)) = Some r \<and>
      Pattern_Resolve (fst (Set p str)) dat = Resolve r dat)"
  by (simp add: Set_def Pattern_Resolve_def)

lemma ParseResolver_empty_placeholder: "ParseResolver ''{}'' = Inl ErrEmptyPlaceholder"
  by code_simp

lemma ParseResolver_index_0: "ParseResolver ''{0}'' = Inr (Path [Index 0])"
  by code_simp

lemma Resolve_index_0_example: "Resolve (Path [Index 0]) example_Data = Inr ''a''"
  by code_simp

theorem Set_keeps_or_replaces_witness:
  "ParseResolver ''{}'' = Inl ErrEmptyPlaceholder \<and>
   Set \<lparr>Resolver = Some (Path [Index 0])\<rparr> ''{}'' =
     (\<lparr>Resolver = Some (Path [Index 0])\<rparr>, Some ErrEmptyPlaceholder) \<and>
   Pattern_Resolve (fst (Set \<lparr>Resolver = Some (Path [Index 0])\<rparr> ''{}'')) example_Data = Inr ''a'' \<and>
   ParseResolver ''{0}'' = Inr (Path [Index 0]) \<and>
   Set \<lparr>Resolver = None\<rparr> ''{0}'' = (\<lparr>Resolver = Some (Path [Index 0])\<rparr>, None) \<and>
   Pattern_Resolve (fst (Set \<lparr>Resolver = None\<rparr> ''{0}'')) example_Data = Inr ''a''"
  using Set_keeps_or_replaces [of "''{}''" ErrEmptyPlaceholder "\<lparr>Resolver = Some (Path [Index 0])\<rparr>"
      example_Data "Path [Index 0]"]
    Set_keeps_or_replaces [of "''{0}''" ErrEmptyPlaceholder "\<lparr>Resolver = None\<rparr>"
      example_Data "Path [Index 0]"]
  by (simp add: ParseResolver_empty_placeholder ParseResolver_index_0 Resolve_index_0_example
      Pattern_Resolve_def del: Resolve.simps)

section \<open>Resolution can panic\<close>

lemma at_negative: "i < 0 \<Longrightarrow> at xs i = Inl PanicIndexOutOfRange"
  by (simp add: at_def)

lemma index_Resolve_negative: "i < 0 \<Longrightarrow> index_Resolve i dat = Inl PanicIndexOutOfRange"
  using length_segments_pos [of "File dat"] by (simp add: index_Resolve_def Let_def at_negative)

lemma ParseResolver_index_minus_1: "ParseResolver ''{-1}'' = Inr (Path [Index (- 1)])"
  by code_simp

text \<open>
  C1 says that \<^verbatim>\<open>Resolve\<close> returns a string for every parsed tree and every record.
  The template \<open>{-1}\<close> parses to an index node, and on every record its \<^verbatim>\<open>Resolve\<close>
  reads \<^verbatim>\<open>xs[-1]\<close>: the bound \<^verbatim>\<open>i.index < len(xs)\<close> holds for a negative index, so
  the access is made and panics.
\<close>

theorem Resolve_parsed_tree_panics:
  "ParseResolver ''{-1}'' = Inr (Path [Index (- 1)]) \<and>
   Resolve (Path [Index (- 1)]) dat = Inl PanicIndexOutOfRange"
  by (simp add: ParseResolver_index_minus_1 index_Resolve_negative)

text \<open>
  C2 says that a negative index counts from the end and that no index raises an error.
  \<^verbatim>\<open>index.Resolve\<close> panics on every negative index, whatever the record.
\<close>

theorem index_Resolve_negative_panics:
  "i < 0 \<Longrightarrow> Resolve (Index i) dat = Inl PanicIndexOutOfRange"
  by (simp add: index_Resolve_negative)

theorem index_Resolve_negative_panics_witness:
  "(- 1 :: int) < 0 \<and> File example_Data = ''/a/b/c/d.dat'' \<and>
   Resolve (Index (- 1)) example_Data = Inl PanicIndexOutOfRange \<and>
   Resolve (Index (- 1)) example_Data \<noteq> Inr ''c''"
  using index_Resolve_negative_panics [of "- 1" example_Data]
  by (simp add: example_Data_def)

text \<open>
  C3 says that a slice whose normalized bounds are equal returns the segment at that
  position. Bounds at or beyond the segment count are both clamped to the count, and
  \<^verbatim>\<open>xs[begin]\<close> with \<open>begin = len(xs)\<close> panics.
\<close>

lemma normalize_beyond: "0 \<le> n \<Longrightarrow> n \<le> b \<Longrightarrow> normalize b n = n"
  by (simp add: normalize_def Let_def)

theorem slice_Resolve_beyond_panics:
  "int (length (segments (File dat))) \<le> b \<Longrightarrow> int (length (segments (File dat))) \<le> e \<Longrightarrow>
   Resolve (Slice b e) dat = Inl PanicIndexOutOfRange"
  by (simp add: slice_Resolve_def Let_def normalize_beyond at_def)

lemma ParseResolver_slice_3_3: "ParseResolver ''{3:3}'' = Inr (Path [Slice 3 3])"
  by code_simp

theorem slice_Resolve_beyond_panics_witness:
  "ParseResolver ''{3:3}'' = Inr (Path [Slice 3 3]) \<and>
   segments (File example_Data) = [''a'', ''b'', ''c''] \<and>
   Resolve (Slice 3 3) example_Data = Inl PanicIndexOutOfRange"
  using slice_Resolve_beyond_panics [of example_Data 3 3]
  by (simp add: example_Data_def segments_example ParseResolver_slice_3_3)

text \<open>
  C4 says that an empty placeholder anywhere in a component is the error
  \<open>empty placeholder\<close> and an unclosed brace the error \<open>missing closing brace\<close>.
  \<^verbatim>\<open>parse\<close> compares \<^verbatim>\<open>end\<close>, counted from the opening brace, with \<^verbatim>\<open>start\<close>,
  counted from \<^verbatim>\<open>offset\<close>: on \<open>a{}\<close> the test \<^verbatim>\<open>end-start == 1\<close> is false, and
  \<^verbatim>\<open>parseResolver\<close> is called on the empty string, where \<^verbatim>\<open>str[0]\<close> panics; on
  \<open>a{b}c{d\<close> the test is true for the first, well-formed placeholder, and the error is
  \<open>empty placeholder\<close>.
\<close>

theorem parse_empty_placeholder_after_literal:
  "ParseResolver ''a{}'' = Inl PanicIndexOutOfRange \<and>
   ParseResolver ''a{b}c{d'' = Inl ErrEmptyPlaceholder"
  by code_simp

text \<open>
  C7 says that a placeholder which is no keyword and reads as the number \<open>n\<close> gives the
  segment \<open>n - 1\<close> of its own text when that is in range and the empty string otherwise.
  The template \<open>{+0}\<close> parses to the fragment \<open>+0\<close>; \<^verbatim>\<open>Atoi\<close> reads it as \<open>0\<close>, the
  bound \<^verbatim>\<open>x < len(xs)\<close> holds for \<open>-1\<close>, and \<^verbatim>\<open>xs[-1]\<close> panics, on every record.
\<close>

lemma ParseResolver_plus_0: "ParseResolver ''{+0}'' = Inr (Path [Fragment ''+0''])"
  by code_simp

lemma ToLower_plus_0: "ToLower ''+0'' = ''+0''"
  by code_simp

lemma Atoi_plus_0: "Atoi ''+0'' = Inr 0"
  by code_simp

lemma segments_plus_0: "segments ''+0'' = [''.'']"
  by code_simp

lemma decrement_0: "decrement 0 = - 1"
  by code_simp

lemma fragment_Resolve_plus_0: "fragment_Resolve ''+0'' dat = Inl PanicIndexOutOfRange"
  by (simp add: fragment_Resolve_def ToLower_plus_0 level_defs Atoi_plus_0 segments_plus_0
      decrement_0 at_def)

theorem fragment_Resolve_number_zero_panics:
  "ParseResolver ''{+0}'' = Inr (Path [Fragment ''+0'']) \<and>
   Resolve (Path [Fragment ''+0'']) dat = Inl PanicIndexOutOfRange"
  by (simp add: ParseResolver_plus_0 fragment_Resolve_plus_0)

section \<open>Date fragments\<close>

lemma ParseResolver_date_template:
  "ParseResolver ''{year}/{doy}/{month}-{day}'' =
     Inr (Path [Fragment ''year'', Fragment ''doy'',
                Compound [Fragment ''month'', Literal ''-'', Fragment ''day'']])"
  by code_simp

lemma ToLower_date_keywords:
  "ToLower ''year'' = ''year''" "ToLower ''doy'' = ''doy''"
  "ToLower ''month'' = ''month''" "ToLower ''day'' = ''day''"
  by code_simp+

lemma date_fields_example:
  "Itoa (Year (Date 2024 3 5 7 8 9)) = ''2024''"
  "Sprintf_0d 3 (YearDay (Date 2024 3 5 7 8 9)) = ''065''"
  "Sprintf_0d 2 (Month (Date 2024 3 5 7 8 9)) = ''03''"
  "Sprintf_0d 2 (Day (Date 2024 3 5 7 8 9)) = ''05''"
  by code_simp+

lemma Join_date_example: "Join [''2024'', ''065'', ''03-05''] = ''2024/065/03-05''"
  by code_simp

lemma fragment_Resolve_date_keywords:
  "fragment_Resolve ''year'' dat = Inr (Itoa (Year (AcqTime dat)))"
  "fragment_Resolve ''doy'' dat = Inr (Sprintf_0d 3 (YearDay (AcqTime dat)))"
  "fragment_Resolve ''month'' dat = Inr (Sprintf_0d 2 (Month (AcqTime dat)))"
  "fragment_Resolve ''day'' dat = Inr (Sprintf_0d 2 (Day (AcqTime dat)))"
  by (simp_all add: fragment_Resolve_def ToLower_date_keywords level_defs)

text \<open>
  C8: on every record whose \<^verbatim>\<open>AcqTime\<close> is 2024-03-05T07:08:09Z the template
  \<open>{year}/{doy}/{month}-{day}\<close> parses and resolves to \<open>2024/065/03-05\<close>. The year is
  written by \<^verbatim>\<open>Itoa\<close>, the day of the year with \<^verbatim>\<open>%03d\<close>, month and day with
  \<^verbatim>\<open>%02d\<close>.
\<close>

theorem Resolve_date_template:
  "AcqTime dat = Date 2024 3 5 7 8 9 \<Longrightarrow>
   ParseResolver ''{year}/{doy}/{month}-{day}'' =
     Inr (Path [Fragment ''year'', Fragment ''doy'',
                Compound [Fragment ''month'', Literal ''-'', Fragment ''day'']]) \<and>
   Resolve (Path [Fragment ''year'', Fragment ''doy'',
                  Compound [Fragment ''month'', Literal ''-'', Fragment ''day'']]) dat =
     Inr ''2024/065/03-05'' \<and>
   Resolve (Fragment ''year'') dat = Inr (Itoa (Year (AcqTime dat))) \<and>
   Resolve (Fragment ''doy'') dat = Inr (Sprintf_0d 3 (YearDay (AcqTime dat))) \<and>
   Resolve (Fragment ''month'') dat = Inr (Sprintf_0d 2 (Month (AcqTime dat))) \<and>
   Resolve (Fragment ''day'') dat = Inr (Sprintf_0d 2 (Day (AcqTime dat)))"
  by (simp add: ParseResolver_date_template fragment_Resolve_date_keywords date_fields_example
      Join_date_example)

theorem Resolve_date_template_witness:
  "AcqTime example_Data = Date 2024 3 5 7 8 9 \<and>
   Resolve (Path [Fragment ''year'', Fragment ''doy'',
                  Compound [Fragment ''month'', Literal ''-'', Fragment ''day'']]) example_Data =
     Inr ''2024/065/03-05''"
  using Resolve_date_template [of example_Data]
  by (simp add: example_Data_def del: Resolve.simps)

section \<open>Joining the components of a path\<close>

lemma Split_no_sep: "x \<in> set (Split s c) \<Longrightarrow> c \<notin> set x"
proof (induction s arbitrary: x)
  case Nil
  then show ?case by simp
next
  case (Cons a s)
  show ?case
  proof (cases "a = c")
    case True
    with Cons show ?thesis by auto
  next
    case False
    obtain y ys where sp: "Split s c = y # ys"
      using Split_not_Nil [of s c] by (cases "Split s c") auto
    with Cons.prems False have "x = a # y \<or> x \<in> set ys" by simp
    then show ?thesis
    proof
      assume "x = a # y"
      moreover have "c \<notin> set y" using Cons.IH [of y] sp by simp
      ultimately show ?thesis using False by auto
    next
      assume "x \<in> set ys"
      then show ?thesis using Cons.IH [of x] sp by simp
    qed
  qed
qed

lemma Split_append_sep: "Split (a @ c # b) c = Split a c @ Split b c"
proof (induction a)
  case Nil
  then show ?case by simp
next
  case (Cons x a)
  obtain y ys where sp: "Split a c = y # ys"
    using Split_not_Nil [of a c] by (cases "Split a c") auto
  with Cons show ?case by simp
qed

lemma Split_Join_strings:
  "Split (Join_strings (e # es) [c]) c = concat (map (\<lambda>s. Split s c) (e # es))"
proof (induction es arbitrary: e)
  case Nil
  then show ?case by simp
next
  case (Cons y ys)
  have "Split (Join_strings (e # y # ys) [c]) c = Split (e @ c # Join_strings (y # ys) [c]) c"
    by simp
  also have "\<dots> = Split e c @ Split (Join_strings (y # ys) [c]) c"
    by (rule Split_append_sep)
  finally show ?case using Cons.IH [of y] by simp
qed

lemma clean_step_empty: "clean_step rooted out [] = out"
  by (simp add: clean_step_def)

lemma foldl_clean_step_filter:
  "foldl (clean_step rooted) out (filter (\<lambda>e. e \<noteq> []) xs) = foldl (clean_step rooted) out xs"
  by (induction xs arbitrary: out) (simp_all add: clean_step_empty)

lemma filter_Split_concat:
  "concat (map (\<lambda>s. filter (\<lambda>e. e \<noteq> []) (Split s c)) (filter (\<lambda>s. s \<noteq> []) es)) =
   concat (map (\<lambda>s. filter (\<lambda>e. e \<noteq> []) (Split s c)) es)"
  by (induction es) simp_all

lemma hd_Join_strings: "e \<noteq> [] \<Longrightarrow> hd (Join_strings (e # es) sep) = hd e"
  by (cases es) simp_all

lemma Join_strings_not_Nil: "e \<noteq> [] \<Longrightarrow> Join_strings (e # es) sep \<noteq> []"
  by (cases es) simp_all

lemma Clean_Join_strings:
  assumes "e \<noteq> []"
  shows "Clean (Join_strings (e # es) ''/'') =
     (let rooted = (hd e = CHR ''/'');
          out = foldl (clean_step rooted) []
                  (concat (map (\<lambda>s. filter (\<lambda>e. e \<noteq> []) (Split s CHR ''/'')) (e # es)));
          res = (if rooted then ''/'' else []) @ Join_strings out ''/''
      in if res = [] then ''.'' else res)"
proof -
  have "foldl (clean_step r) [] (Split (Join_strings (e # es) ''/'') CHR ''/'') =
        foldl (clean_step r) []
          (concat (map (\<lambda>s. filter (\<lambda>e. e \<noteq> []) (Split s CHR ''/'')) (e # es)))" for r
    using foldl_clean_step_filter [of r "[]" "Split (Join_strings (e # es) ''/'') CHR ''/''"]
    by (simp only: Split_Join_strings filter_concat map_map comp_def)
  then show ?thesis
    using assms by (simp add: Clean_def Join_strings_not_Nil hd_Join_strings Let_def)
qed

lemma Join_drops_empty: "Join (filter (\<lambda>s. s \<noteq> []) elem) = Join elem"
proof (induction elem)
  case Nil
  then show ?case by simp
next
  case (Cons e es)
  show ?case
  proof (cases "e = []")
    case True
    with Cons show ?thesis by (simp add: Join_def)
  next
    case False
    have "Join (e # filter (\<lambda>s. s \<noteq> []) es) = Join (e # es)"
      using False
      by (simp add: Join_def Clean_Join_strings [OF False] filter_Split_concat)
    with False show ?thesis by simp
  qed
qed

lemma Join_leading_empty: "Join ([] # elem) = Join elem"
  by (simp add: Join_def)

subsection \<open>No doubled separator in a cleaned path\<close>

lemma doubled_no_sep: "c \<notin> set s \<Longrightarrow> \<not> doubled c s"
  by (induction c s rule: doubled.induct) auto

lemma doubled_append:
  "doubled c (a @ b) =
     (doubled c a \<or> doubled c b \<or> (a \<noteq> [] \<and> b \<noteq> [] \<and> last a = c \<and> hd b = c))"
proof (induction c a rule: doubled.induct)
  case (1 c x y ys)
  then show ?case by auto
next
  case (2 c x)
  then show ?case by (cases b) auto
next
  case (3 c)
  then show ?case by simp
qed

lemma no_sep_ends: "x \<noteq> [] \<Longrightarrow> c \<notin> set x \<Longrightarrow> hd x \<noteq> c \<and> last x \<noteq> c"
  by (metis hd_in_set last_in_set)

lemma clean_step_elements:
  "list_all element out \<Longrightarrow> CHR ''/'' \<notin> set elem \<Longrightarrow>
   list_all element (clean_step rooted out elem)"
  by (auto simp add: clean_step_def element_def list_all_iff dest: in_set_butlastD)

lemma foldl_clean_step_elements:
  "list_all element out \<Longrightarrow> \<forall>x \<in> set xs. CHR ''/'' \<notin> set x \<Longrightarrow>
   list_all element (foldl (clean_step rooted) out xs)"
  by (induction xs arbitrary: out) (simp_all add: clean_step_elements)

lemma Join_strings_elements:
  "list_all element xs \<Longrightarrow> xs \<noteq> [] \<Longrightarrow>
   Join_strings xs ''/'' \<noteq> [] \<and> hd (Join_strings xs ''/'') \<noteq> CHR ''/'' \<and>
   last (Join_strings xs ''/'') \<noteq> CHR ''/'' \<and> \<not> doubled CHR ''/'' (Join_strings xs ''/'')"
proof (induction xs "''/''" rule: Join_strings.induct)
  case 1
  then show ?case by simp
next
  case (2 x)
  then have x: "x \<noteq> []" "CHR ''/'' \<notin> set x" by (simp_all add: element_def)
  then have "hd x \<noteq> CHR ''/''" "last x \<noteq> CHR ''/''"
    using no_sep_ends [of x "CHR ''/''"] by simp_all
  with x show ?case by (simp add: doubled_no_sep)
next
  case (3 x y ys)
  then have x: "x \<noteq> []" "CHR ''/'' \<notin> set x" by (simp_all add: element_def)
  then have hx: "hd x \<noteq> CHR ''/''" "last x \<noteq> CHR ''/''"
    using no_sep_ends [of x "CHR ''/''"] by simp_all
  from 3 have ih: "Join_strings (y # ys) ''/'' \<noteq> []"
    "hd (Join_strings (y # ys) ''/'') \<noteq> CHR ''/''"
    "last (Join_strings (y # ys) ''/'') \<noteq> CHR ''/''"
    "\<not> doubled CHR ''/'' (Join_strings (y # ys) ''/'')"
    by simp_all
  obtain j js where j: "Join_strings (y # ys) ''/'' = j # js"
    using ih(1) by (cases "Join_strings (y # ys) ''/''") auto
  have "\<not> doubled CHR ''/'' (CHR ''/'' # Join_strings (y # ys) ''/'')"
    using ih j by simp
  then have "\<not> doubled CHR ''/'' (x @ CHR ''/'' # Join_strings (y # ys) ''/'')"
    using x hx by (simp add: doubled_append doubled_no_sep)
  then show ?case using x hx ih by simp
qed

lemma Clean_shape:
  "Clean path = ''.'' \<or> Clean path = ''/'' \<or>
   (\<not> doubled CHR ''/'' (Clean path) \<and> Clean path \<noteq> [] \<and> last (Clean path) \<noteq> CHR ''/'')"
proof (cases "path = []")
  case True
  then show ?thesis by (simp add: Clean_def)
next
  case False
  define rooted where "rooted = (hd path = CHR ''/'')"
  define out where "out = foldl (clean_step rooted) [] (Split path CHR ''/'')"
  have el: "list_all element out"
    unfolding out_def by (rule foldl_clean_step_elements) (auto dest: Split_no_sep)
  have cl: "Clean path =
      (if (if rooted then ''/'' else []) @ Join_strings out ''/'' = [] then ''.''
       else (if rooted then ''/'' else []) @ Join_strings out ''/'')"
    using False by (simp add: Clean_def rooted_def out_def Let_def)
  show ?thesis
  proof (cases "out = []")
    case True
    with cl show ?thesis by simp
  next
    case ne: False
    note j = Join_strings_elements [OF el ne]
    obtain c cs where c: "Join_strings out ''/'' = c # cs"
      using j by (cases "Join_strings out ''/''") auto
    show ?thesis
    proof (cases rooted)
      case True
      with cl have "Clean path = CHR ''/'' # Join_strings out ''/''" by simp
      moreover have "\<not> doubled CHR ''/'' (CHR ''/'' # Join_strings out ''/'')"
        using j c by simp
      ultimately show ?thesis using j by simp
    next
      case False
      with cl j have "Clean path = Join_strings out ''/''" by simp
      then show ?thesis using j by simp
    qed
  qed
qed

lemma Join_shape:
  "Join elem = [] \<or> Join elem = ''.'' \<or> Join elem = ''/'' \<or>
   (\<not> doubled CHR ''/'' (Join elem) \<and> last (Join elem) \<noteq> CHR ''/'')"
proof (cases "dropWhile (\<lambda>e. e = []) elem")
  case Nil
  have "Join elem = []"
    unfolding Join_def Nil by simp
  then show ?thesis by simp
next
  case (Cons e es)
  then have "Join elem = Clean (Join_strings (e # es) ''/'')" by (simp add: Join_def)
  then show ?thesis using Clean_shape [of "Join_strings (e # es) ''/''"] by auto
qed

lemma Join_no_doubled: "\<not> doubled CHR ''/'' (Join elem)"
  using Join_shape [of elem] by auto

subsection \<open>The children in order\<close>

lemma Split_no_sep_id: "c \<notin> set s \<Longrightarrow> Split s c = [s]"
  by (induction s) auto

lemma name_element_simps:
  "name_element x \<Longrightarrow> x \<noteq> [] \<and> x \<noteq> ''.'' \<and> x \<noteq> ''..'' \<and> CHR ''/'' \<notin> set x"
  by (auto simp add: name_element_def element_def split: if_splits)

lemma clean_step_name: "name_element x \<Longrightarrow> clean_step rooted out x = out @ [x]"
  using name_element_simps [of x] by (simp add: clean_step_def)

lemma foldl_clean_step_names:
  "list_all name_element xs \<Longrightarrow> foldl (clean_step rooted) out xs = out @ xs"
  by (induction xs arbitrary: out) (simp_all add: clean_step_name)

lemma concat_Split_names:
  "list_all name_element xs \<Longrightarrow>
   concat (map (\<lambda>s. filter (\<lambda>e. e \<noteq> []) (Split s CHR ''/'')) xs) = xs"
proof (induction xs)
  case Nil
  then show ?case by simp
next
  case (Cons x xs)
  then have "name_element x" by simp
  then have "Split x CHR ''/'' = [x]" "x \<noteq> []"
    using name_element_simps [of x] by (simp_all add: Split_no_sep_id)
  with Cons show ?case by simp
qed

lemma Join_names: "list_all name_element str \<Longrightarrow> Join str = Join_strings str ''/''"
proof (cases str)
  case Nil
  then show ?thesis by (simp add: Join_def)
next
  case (Cons e es)
  assume "list_all name_element str"
  with Cons have names: "list_all name_element (e # es)" by simp
  then have e: "e \<noteq> []" "CHR ''/'' \<notin> set e"
    using name_element_simps [of e] by simp_all
  then have h: "(hd e = CHR ''/'') = False"
    using no_sep_ends [of e "CHR ''/''"] by simp
  have j: "(Join_strings (e # es) ''/'' = []) = False"
    using Join_strings_not_Nil [OF e(1), of es "''/''"] by simp
  have cs: "concat (map (\<lambda>s. filter (\<lambda>e. e \<noteq> []) (Split s CHR ''/'')) (e # es)) = e # es"
    using names by (rule concat_Split_names)
  have fl: "foldl (clean_step False) [] (e # es) = [] @ (e # es)"
    using names by (rule foldl_clean_step_names)
  have "Join str = Clean (Join_strings (e # es) ''/'')"
    using Cons e(1) by (simp add: Join_def)
  also have "\<dots> = Join_strings (e # es) ''/''"
    by (simp only: Clean_Join_strings [OF e(1)] cs h fl Let_def append_Nil if_False j)
  finally show ?thesis using Cons by simp
qed

lemma Join_Clean:
  "Join str =
     (case filter (\<lambda>s. s \<noteq> []) str of
        [] \<Rightarrow> []
      | e # es \<Rightarrow> Clean (Join_strings (e # es) ''/''))"
proof -
  have "Join (filter (\<lambda>s. s \<noteq> []) str) =
     (case filter (\<lambda>s. s \<noteq> []) str of
        [] \<Rightarrow> []
      | e # es \<Rightarrow> Clean (Join_strings (e # es) ''/''))"
  proof (cases "filter (\<lambda>s. s \<noteq> []) str")
    case Nil
    then show ?thesis by (simp add: Join_def)
  next
    case (Cons e es)
    then have "e \<in> set (filter (\<lambda>s. s \<noteq> []) str)" by simp
    then have "e \<noteq> []" by simp
    with Cons show ?thesis by (simp add: Join_def)
  qed
  then show ?thesis by (simp only: Join_drops_empty)
qed

lemma collect_example:
  "collect (map (\<lambda>r. Resolve r example_Data) [Literal ''a'', Fragment ''bogus'', Literal ''..'', Literal ''b'']) =
     Inr [''a'', [], ''..'', ''b'']"
  "collect (map (\<lambda>r. Resolve r example_Data) [Literal ''x'', Literal ''y'', Literal ''z'']) =
     Inr [''x'', ''y'', ''z'']"
  by code_simp+

lemma Join_example:
  "Join [''a'', [], ''..'', ''b''] = ''b''" "Join_strings [''a'', [], ''..'', ''b''] ''/'' = ''a//../b''"
  "Join [''x'', ''y'', ''z''] = ''x/y/z''" "Join_strings [''x'', ''y'', ''z''] ''/'' = ''x/y/z''"
  "list_all name_element [''x'', ''y'', ''z'']"
  by code_simp+

text \<open>
  C10: a path node resolves to \<^verbatim>\<open>filepath.Join\<close> of what its children resolve to (and
  panics where a child does). \<^verbatim>\<open>filepath.Join\<close> is \<^verbatim>\<open>Clean\<close> of the children's strings
  that are not empty, joined in their order by the separator; where every child gives a
  name (not empty, without a separator, neither \<open>.\<close> nor \<open>..\<close>) that is the children's
  strings joined in their order by the separator, as they are. Children that resolve to
  the empty string make no difference to the result, a leading one adds no separator,
  the result has no doubled separator and no trailing one unless it is the root, and
  since it is cleaned it need not be the children's strings joined by the separator.
\<close>

theorem path_Resolve_Join:
  "(collect (map (\<lambda>r. Resolve r dat) rs) = Inr str \<longrightarrow>
      Resolve (Path rs) dat = Inr (Join str) \<and>
      Resolve (Path rs) dat = Inr (Join (filter (\<lambda>s. s \<noteq> []) str)) \<and>
      Resolve (Path rs) dat =
        Inr (case filter (\<lambda>s. s \<noteq> []) str of
               [] \<Rightarrow> []
             | e # es \<Rightarrow> Clean (Join_strings (e # es) ''/'')) \<and>
      (list_all name_element str \<longrightarrow> Resolve (Path rs) dat = Inr (Join_strings str ''/''))) \<and>
   (collect (map (\<lambda>r. Resolve r dat) rs) = Inl e \<longrightarrow> Resolve (Path rs) dat = Inl e) \<and>
   Join str =
     (case filter (\<lambda>s. s \<noteq> []) str of
        [] \<Rightarrow> []
      | e # es \<Rightarrow> Clean (Join_strings (e # es) ''/'')) \<and>
   (list_all name_element str \<longrightarrow> Join str = Join_strings str ''/'') \<and>
   Join (filter (\<lambda>s. s \<noteq> []) str) = Join str \<and>
   Join ([] # str) = Join str \<and>
   \<not> doubled CHR ''/'' (Join str) \<and>
   (Join str = [] \<or> Join str = ''.'' \<or> Join str = ''/'' \<or> last (Join str) \<noteq> CHR ''/'') \<and>
   Join [''x'', ''y'', ''z''] = ''x/y/z'' \<and>
   Join [''a'', [], ''..'', ''b''] = ''b'' \<and>
   Join_strings [''a'', [], ''..'', ''b''] ''/'' = ''a//../b''"
proof -
  have c: "Join str =
     (case filter (\<lambda>s. s \<noteq> []) str of
        [] \<Rightarrow> []
      | e # es \<Rightarrow> Clean (Join_strings (e # es) ''/''))"
    by (rule Join_Clean)
  have n: "list_all name_element str \<longrightarrow> Join str = Join_strings str ''/''"
    by (simp add: Join_names)
  have r: "collect (map (\<lambda>r. Resolve r dat) rs) = Inr str \<longrightarrow>
      Resolve (Path rs) dat = Inr (Join str)"
    by simp
  have l: "collect (map (\<lambda>r. Resolve r dat) rs) = Inl e \<longrightarrow> Resolve (Path rs) dat = Inl e"
    by simp
  have d: "Join (filter (\<lambda>s. s \<noteq> []) str) = Join str" "Join ([] # str) = Join str"
    "\<not> doubled CHR ''/'' (Join str)"
    by (simp_all only: Join_drops_empty Join_leading_empty Join_no_doubled not_False_eq_True)
  have s: "Join str = [] \<or> Join str = ''.'' \<or> Join str = ''/'' \<or> last (Join str) \<noteq> CHR ''/''"
    using Join_shape [of str] by blast
  show ?thesis
    using c n r l d s Join_example(1,2,3) by (simp del: Resolve.simps)
qed

theorem path_Resolve_Join_witness:
  "collect (map (\<lambda>r. Resolve r example_Data)
      [Literal ''a'', Fragment ''bogus'', Literal ''..'', Literal ''b'']) = Inr [''a'', [], ''..'', ''b''] \<and>
   Resolve (Path [Literal ''a'', Fragment ''bogus'', Literal ''..'', Literal ''b'']) example_Data =
     Inr ''b'' \<and>
   collect (map (\<lambda>r. Resolve r example_Data) [Literal ''x'', Literal ''y'', Literal ''z'']) =
     Inr [''x'', ''y'', ''z''] \<and>
   list_all name_element [''x'', ''y'', ''z''] \<and>
   Resolve (Path [Literal ''x'', Literal ''y'', Literal ''z'']) example_Data = Inr ''x/y/z''"
proof -
  have a: "Resolve (Path [Literal ''a'', Fragment ''bogus'', Literal ''..'', Literal ''b''])
      example_Data = Inr (Join [''a'', [], ''..'', ''b''])"
    using path_Resolve_Join [of example_Data
        "[Literal ''a'', Fragment ''bogus'', Literal ''..'', Literal ''b'']"
        "[''a'', [], ''..'', ''b'']"] collect_example(1)
    by blast
  have b: "Resolve (Path [Literal ''x'', Literal ''y'', Literal ''z'']) example_Data =
      Inr (Join_strings [''x'', ''y'', ''z''] ''/'')"
    using path_Resolve_Join [of example_Data "[Literal ''x'', Literal ''y'', Literal ''z'']"
        "[''x'', ''y'', ''z'']"] collect_example(2) Join_example(5)
    by blast
  show ?thesis
    using a b collect_example Join_example by (simp only: simp_thms)
qed

section \<open>Title-cased fragments\<close>

lemma ToLower_field_keywords:
  "ToLower ''source'' = ''source''" "ToLower ''model'' = ''model''"
  "ToLower ''mime'' = ''mime''" "ToLower ''format'' = ''format''"
  "ToLower ''type'' = ''type''" "ToLower ''run'' = ''run''"
  by code_simp+

lemma fragment_Resolve_field_keywords:
  "fragment_Resolve ''source'' dat = Inr (replace (Source dat))"
  "fragment_Resolve ''model'' dat = Inr (replace (Model dat))"
  "fragment_Resolve ''mime'' dat = Inr (replace (splitMime (Mime dat)))"
  "fragment_Resolve ''format'' dat = Inr (replace (splitMime (Mime dat)))"
  "fragment_Resolve ''type'' dat = Inr (replace (Type dat))"
  "fragment_Resolve ''run'' dat = Inr (Source dat)"
  by (simp_all add: fragment_Resolve_def ToLower_field_keywords level_defs)

lemma concat_drop_char:
  "concat (map (\<lambda>c. if c = x then [] else [c]) xs) = filter (\<lambda>c. c \<noteq> x) xs"
  by (induction xs) simp_all

lemma replace_filter: "replace s = filter (\<lambda>c. c \<noteq> CHR '' '') (Title s)"
  by (simp add: replace_def ReplaceAll_def concat_drop_char)

lemma length_title_from: "length (title_from prev s) = length s"
  by (induction s arbitrary: prev) simp_all

lemma nth_title_from:
  "i < length s \<Longrightarrow>
   title_from prev s ! i =
     (if isSeparator (if i = 0 then prev else s ! (i - 1)) then ToTitle (s ! i) else s ! i)"
proof (induction s arbitrary: prev i)
  case Nil
  then show ?case by simp
next
  case (Cons c cs)
  show ?case
  proof (cases i)
    case 0
    then show ?thesis by simp
  next
    case (Suc j)
    with Cons.prems have "j < length cs" by simp
    from Cons.IH [OF this, of c] Suc show ?thesis
      by (cases j) simp_all
  qed
qed

lemma length_Title: "length (Title s) = length s"
  by (simp add: Title_def length_title_from)

lemma nth_Title:
  "i < length s \<Longrightarrow>
   Title s ! i =
     (if isSeparator (if i = 0 then CHR '' '' else s ! (i - 1)) then ToTitle (s ! i) else s ! i)"
  unfolding Title_def by (rule nth_title_from)

lemma plain_separator: "plain c \<Longrightarrow> isSeparator c = isSpace c"
  by (auto simp add: plain_def isSeparator_def isSpace_def isNumber_def isLower_def isUpper_def
      code_of_def)

lemma plain_space: "plain c \<Longrightarrow> isSpace c = (c = CHR '' '')"
  by (auto simp add: plain_def isSpace_def isNumber_def isLower_def isUpper_def code_of_def)

lemma ToTitle_not_space: "c \<noteq> CHR '' '' \<Longrightarrow> ToTitle c \<noteq> CHR '' ''"
proof
  assume c: "c \<noteq> CHR '' ''" and eq: "ToTitle c = CHR '' ''"
  show False
  proof (cases "isLower c")
    case True
    with eq have "char_of (code_of c - 32) = CHR '' ''" by (simp add: ToTitle_def)
    then have "(of_char (char_of (code_of c - 32)) :: int) = of_char CHR '' ''" by simp
    then have "(code_of c - 32) mod 256 = 32" by simp
    with True show False by (simp add: isLower_def)
  next
    case False
    with eq c show False by (simp add: ToTitle_def)
  qed
qed

lemma plain_title_from:
  "list_all plain s \<Longrightarrow> isSeparator prev = isSpace prev \<Longrightarrow>
   filter (\<lambda>c. c \<noteq> CHR '' '') (title_from prev s) = spec_title_from prev s"
proof (induction s arbitrary: prev)
  case Nil
  then show ?case by simp
next
  case (Cons c cs)
  from Cons.prems have c: "plain c" and cs: "list_all plain cs" by simp_all
  have ih: "filter (\<lambda>c. c \<noteq> CHR '' '') (title_from c cs) = spec_title_from c cs"
    using Cons.IH [OF cs plain_separator [OF c]] .
  show ?case
  proof (cases "c = CHR '' ''")
    case True
    then show ?thesis using ih by (simp add: isSpace_def ToTitle_def isLower_def code_of_def)
  next
    case False
    then have ns: "\<not> isSpace c" using plain_space [OF c] by simp
    have "ToTitle c \<noteq> CHR '' ''"
      using False by (rule ToTitle_not_space)
    then show ?thesis using ih ns False Cons.prems(2) by simp
  qed
qed

lemma replace_plain: "list_all plain s \<Longrightarrow> replace s = spec_title_case s"
  unfolding replace_filter Title_def spec_title_case_def
  by (rule plain_title_from) (simp_all add: isSeparator_def isSpace_def isNumber_def isLower_def
      isUpper_def code_of_def)

lemma replace_main_unit: "replace ''main unit'' = ''MainUnit''"
  by code_simp

lemma plain_ascii: "plain c \<Longrightarrow> ascii c"
  by (auto simp add: plain_def ascii_def isNumber_def isLower_def isUpper_def code_of_def)

lemma ascii_main_unit: "list_all ascii ''main unit''"
  by code_simp

lemma ParseResolver_field_templates:
  "ParseResolver ''{source}'' = Inr (Path [Fragment ''source''])"
  "ParseResolver ''{run}'' = Inr (Path [Fragment ''run''])"
  by code_simp+

lemma Join_MainUnit: "Join [''MainUnit''] = ''MainUnit''"
  by code_simp

lemma Join_single_name: "name_element s \<Longrightarrow> Join [s] = s"
  using Join_names [of "[s]"] by simp

text \<open>
  C9, as stated: the fragments upper-case the first letter of every whitespace-delimited
  token and delete all whitespace, and \<open>{run}\<close> returns the source verbatim.
  \<^verbatim>\<open>strings.Title\<close> also starts a word after punctuation, so the source \<open>a-b\<close> resolves
  to \<open>A-B\<close>, where the wording gives \<open>A-b\<close>; \<^verbatim>\<open>ReplaceAll\<close> deletes the space character
  only, so a tab stays where the wording deletes it; and the template \<open>{run}\<close> is a path
  of one fragment, whose result goes through \<^verbatim>\<open>filepath.Join\<close>: the source \<open>a//b\<close>
  resolves to \<open>a/b\<close>.
\<close>

theorem title_case_counterexample:
  "Resolve (Fragment ''source'') (example_Data\<lparr>Source := ''a-b''\<rparr>) = Inr ''A-B'' \<and>
   spec_title_case ''a-b'' = ''A-b'' \<and>
   Resolve (Fragment ''source'') (example_Data\<lparr>Source := ''a-b''\<rparr>) \<noteq>
     Inr (spec_title_case ''a-b'') \<and>
   Resolve (Fragment ''source'') (example_Data\<lparr>Source := [CHR ''a'', CHR 0x09, CHR ''b'']\<rparr>) =
     Inr [CHR ''A'', CHR 0x09, CHR ''B''] \<and>
   spec_title_case [CHR ''a'', CHR 0x09, CHR ''b''] = ''AB'' \<and>
   ParseResolver ''{run}'' = Inr (Path [Fragment ''run'']) \<and>
   Resolve (Path [Fragment ''run'']) (example_Data\<lparr>Source := ''a//b''\<rparr>) = Inr ''a/b''"
  by code_simp

text \<open>
  C9, amended, for fields of ASCII text. The fragments source, model, mime, format and
  type apply \<open>replace\<close> to their field, and the fragment \<open>run\<close> returns the source as
  it is. \<open>replace\<close> keeps the characters of \<^verbatim>\<open>Title\<close> but the spaces; \<^verbatim>\<open>Title\<close> keeps
  the length and puts a character in title case when it is the first or follows a
  separator, that is an ASCII character other than a letter, a digit and the underscore.
  On a field of plain words and spaces this is the wording of the specification. The
  templates \<open>{source}\<close> and \<open>{run}\<close> are paths of one fragment and resolve to
  \<^verbatim>\<open>filepath.Join\<close> of what the fragment gives: the source \<open>main unit\<close> resolves to
  \<open>MainUnit\<close> under \<open>{source}\<close>, and a source that is a name resolves to itself under
  \<open>{run}\<close>.
\<close>

theorem title_case_fragments:
  "(list_all ascii (Source dat) \<longrightarrow>
      Resolve (Fragment ''source'') dat = Inr (replace (Source dat)) \<and>
      Resolve (Path [Fragment ''source'']) dat = Inr (Join [replace (Source dat)])) \<and>
   (list_all ascii (Model dat) \<longrightarrow>
      Resolve (Fragment ''model'') dat = Inr (replace (Model dat))) \<and>
   (list_all ascii (Mime dat) \<longrightarrow>
      Resolve (Fragment ''mime'') dat = Inr (replace (splitMime (Mime dat))) \<and>
      Resolve (Fragment ''format'') dat = Inr (replace (splitMime (Mime dat)))) \<and>
   (list_all ascii (Type dat) \<longrightarrow>
      Resolve (Fragment ''type'') dat = Inr (replace (Type dat))) \<and>
   Resolve (Fragment ''run'') dat = Inr (Source dat) \<and>
   Resolve (Path [Fragment ''run'']) dat = Inr (Join [Source dat]) \<and>
   (name_element (Source dat) \<longrightarrow> Resolve (Path [Fragment ''run'']) dat = Inr (Source dat)) \<and>
   ParseResolver ''{source}'' = Inr (Path [Fragment ''source'']) \<and>
   ParseResolver ''{run}'' = Inr (Path [Fragment ''run'']) \<and>
   (list_all ascii s \<longrightarrow>
      replace s = filter (\<lambda>c. c \<noteq> CHR '' '') (Title s) \<and>
      length (Title s) = length s \<and>
      (\<forall>i < length s.
         Title s ! i =
           (if isSeparator (if i = 0 then CHR '' '' else s ! (i - 1)) then ToTitle (s ! i)
            else s ! i))) \<and>
   (list_all plain s \<longrightarrow> list_all ascii s \<and> replace s = spec_title_case s) \<and>
   (Source dat = ''main unit'' \<longrightarrow>
      list_all ascii (Source dat) \<and> Resolve (Path [Fragment ''source'']) dat = Inr ''MainUnit'')"
proof -
  have f: "Resolve (Fragment ''source'') dat = Inr (replace (Source dat))"
    "Resolve (Fragment ''model'') dat = Inr (replace (Model dat))"
    "Resolve (Fragment ''mime'') dat = Inr (replace (splitMime (Mime dat)))"
    "Resolve (Fragment ''format'') dat = Inr (replace (splitMime (Mime dat)))"
    "Resolve (Fragment ''type'') dat = Inr (replace (Type dat))"
    "Resolve (Fragment ''run'') dat = Inr (Source dat)"
    by (simp_all add: fragment_Resolve_field_keywords)
  have p: "Resolve (Path [Fragment ''source'']) dat = Inr (Join [replace (Source dat)])"
    "Resolve (Path [Fragment ''run'']) dat = Inr (Join [Source dat])"
    by (simp_all add: fragment_Resolve_field_keywords)
  have r: "name_element (Source dat) \<longrightarrow> Resolve (Path [Fragment ''run'']) dat = Inr (Source dat)"
    using p(2) by (simp add: Join_single_name del: Resolve.simps)
  have t: "replace s = filter (\<lambda>c. c \<noteq> CHR '' '') (Title s)" "length (Title s) = length s"
    "\<forall>i < length s.
         Title s ! i =
           (if isSeparator (if i = 0 then CHR '' '' else s ! (i - 1)) then ToTitle (s ! i)
            else s ! i)"
    by (simp_all add: replace_filter length_Title nth_Title)
  have w: "list_all plain s \<longrightarrow> list_all ascii s \<and> replace s = spec_title_case s"
    by (auto simp add: replace_plain list_all_iff plain_ascii)
  have m: "Source dat = ''main unit'' \<longrightarrow>
      list_all ascii (Source dat) \<and> Resolve (Path [Fragment ''source'']) dat = Inr ''MainUnit''"
  proof (intro impI conjI)
    assume s: "Source dat = ''main unit''"
    show "list_all ascii (Source dat)"
      by (simp only: s ascii_main_unit)
    show "Resolve (Path [Fragment ''source'']) dat = Inr ''MainUnit''"
      by (simp only: p(1) s replace_main_unit Join_MainUnit)
  qed
  show ?thesis
    using f p r t w m ParseResolver_field_templates by blast
qed

lemma plain_main_unit: "list_all plain ''main unit''"
  by code_simp

lemma spec_title_case_main_unit: "spec_title_case ''main unit'' = ''MainUnit''"
  by code_simp

lemma Title_rule_main_unit_5:
  "(if isSeparator (if (5::nat) = 0 then CHR '' '' else ''main unit'' ! (5 - 1))
    then ToTitle (''main unit'' ! 5) else ''main unit'' ! 5) = CHR ''U''"
  by code_simp

lemma example_fields_ascii:
  "list_all ascii (Source example_Data)" "list_all ascii (Model example_Data)"
  "list_all ascii (Mime example_Data)" "list_all ascii (Type example_Data)"
  "replace (Model example_Data) = ''ModelA''"
  "replace (splitMime (Mime example_Data)) = ''Plain''"
  "replace (Type example_Data) = ''Image''"
  "name_element (Source (example_Data\<lparr>Source := ''unit7''\<rparr>))"
  "Source (example_Data\<lparr>Source := ''unit7''\<rparr>) = ''unit7''"
  by code_simp+

theorem title_case_fragments_witness:
  "list_all ascii (Source example_Data) \<and> list_all ascii (Model example_Data) \<and>
   list_all ascii (Mime example_Data) \<and> list_all ascii (Type example_Data) \<and>
   list_all plain ''main unit'' \<and> list_all ascii ''main unit'' \<and>
   Source example_Data = ''main unit'' \<and>
   replace ''main unit'' = spec_title_case ''main unit'' \<and>
   spec_title_case ''main unit'' = ''MainUnit'' \<and>
   Resolve (Path [Fragment ''source'']) example_Data = Inr ''MainUnit'' \<and>
   Resolve (Fragment ''model'') example_Data = Inr ''ModelA'' \<and>
   Resolve (Fragment ''mime'') example_Data = Inr ''Plain'' \<and>
   Resolve (Fragment ''type'') example_Data = Inr ''Image'' \<and>
   name_element (Source (example_Data\<lparr>Source := ''unit7''\<rparr>)) \<and>
   Resolve (Path [Fragment ''run'']) (example_Data\<lparr>Source := ''unit7''\<rparr>) = Inr ''unit7'' \<and>
   Title ''main unit'' ! 5 = CHR ''U''"
proof -
  note t = title_case_fragments [of example_Data "''main unit''"]
  note u = title_case_fragments [of "example_Data\<lparr>Source := ''unit7''\<rparr>" "''main unit''"]
  have s: "Source example_Data = ''main unit''"
    by (simp add: example_Data_def)
  have a: "list_all ascii ''main unit'' \<and> replace ''main unit'' = spec_title_case ''main unit''"
    using t plain_main_unit by blast
  have b: "Resolve (Path [Fragment ''source'']) example_Data = Inr ''MainUnit''"
    using t s by blast
  have m: "Resolve (Fragment ''model'') example_Data = Inr (replace (Model example_Data))"
    "Resolve (Fragment ''mime'') example_Data = Inr (replace (splitMime (Mime example_Data)))"
    "Resolve (Fragment ''type'') example_Data = Inr (replace (Type example_Data))"
    using t example_fields_ascii(2,3,4) by blast+
  have r: "Resolve (Path [Fragment ''run'']) (example_Data\<lparr>Source := ''unit7''\<rparr>) =
      Inr (Source (example_Data\<lparr>Source := ''unit7''\<rparr>))"
    using u example_fields_ascii(8) by blast
  have "\<forall>i < length ''main unit''.
      Title ''main unit'' ! i =
        (if isSeparator (if i = 0 then CHR '' '' else ''main unit'' ! (i - 1))
         then ToTitle (''main unit'' ! i) else ''main unit'' ! i)"
    using t a by blast
  then have "Title ''main unit'' ! 5 =
        (if isSeparator (if (5::nat) = 0 then CHR '' '' else ''main unit'' ! (5 - 1))
         then ToTitle (''main unit'' ! 5) else ''main unit'' ! 5)"
    by simp
  then have c: "Title ''main unit'' ! 5 = CHR ''U''"
    by (simp only: Title_rule_main_unit_5)
  show ?thesis
    using plain_main_unit s a spec_title_case_main_unit b c m r example_fields_ascii
    by (simp only: simp_thms)
qed

section \<open>Where index, slice and fragment return\<close>

text \<open>
  An index that is not negative resolves to the segment at that position, counted from
  0, and to the empty string from the segment count on.
\<close>

theorem index_Resolve_nonnegative:
  "0 \<le> i \<Longrightarrow>
   Resolve (Index i) dat =
     Inr (if i < int (length (segments (File dat))) then segments (File dat) ! nat i else [])"
  by (simp add: index_Resolve_def at_def)

theorem index_Resolve_nonnegative_witness:
  "(0::int) \<le> 0 \<and> Resolve (Index 0) example_Data = Inr ''a'' \<and>
   (0::int) \<le> 7 \<and> Resolve (Index 7) example_Data = Inr []"
  using index_Resolve_nonnegative [of 0 example_Data] index_Resolve_nonnegative [of 7 example_Data]
  by (simp add: example_Data_def segments_example)

text \<open>
  The bounds of a slice are normalized into \<open>0 .. count\<close>. Equal bounds below the count
  give the segment there, \<open>begin < end\<close> gives \<^verbatim>\<open>filepath.Join\<close> of the segments from
  \<open>begin\<close> up to \<open>end\<close>, and \<open>begin > end\<close> the empty string.
\<close>

lemma normalize_range: "0 \<le> n \<Longrightarrow> 0 \<le> normalize i n \<and> normalize i n \<le> n"
  by (simp add: normalize_def Let_def)

theorem slice_Resolve_cases:
  assumes "xs = segments (File dat)" and "b' = normalize b (int (length xs))"
    and "e' = normalize e (int (length xs))"
  shows "0 \<le> b' \<and> b' \<le> int (length xs) \<and> 0 \<le> e' \<and> e' \<le> int (length xs) \<and>
    (b' = e' \<and> b' < int (length xs) \<longrightarrow> Resolve (Slice b e) dat = Inr (xs ! nat b')) \<and>
    (b' < e' \<longrightarrow> Resolve (Slice b e) dat = Inr (Join (slice_of xs (nat b') (nat e')))) \<and>
    (e' < b' \<longrightarrow> Resolve (Slice b e) dat = Inr [])"
proof -
  have n: "0 \<le> b' \<and> b' \<le> int (length xs)" "0 \<le> e' \<and> e' \<le> int (length xs)"
    unfolding assms(2,3) by (rule normalize_range, simp)+
  have r: "Resolve (Slice b e) dat =
      (if e' = b' then at xs b'
       else if b' < e' then Inr (Join (slice_of xs (nat b') (nat e'))) else Inr [])"
    unfolding assms by (simp add: slice_Resolve_def Let_def)
  have a: "b' < int (length xs) \<Longrightarrow> at xs b' = Inr (xs ! nat b')"
    using n(1) by (simp add: at_def)
  show ?thesis
    using n r a by auto
qed

lemma slice_examples:
  "normalize 1 (int (length [''a'', ''b'', ''c''])) = 1"
  "normalize 3 (int (length [''a'', ''b'', ''c''])) = 3"
  "normalize (- 1) (int (length [''a'', ''b'', ''c''])) = 2"
  "normalize 2 (int (length [''a'', ''b'', ''c''])) = 2"
  "Join (slice_of [''a'', ''b'', ''c''] (nat 1) (nat 3)) = ''b/c''"
  "[''a'', ''b'', ''c''] ! nat 2 = ''c''"
  by code_simp+

theorem slice_Resolve_cases_witness:
  "[''a'', ''b'', ''c''] = segments (File example_Data) \<and>
   Resolve (Slice 1 3) example_Data = Inr ''b/c'' \<and>
   Resolve (Slice (- 1) (- 1)) example_Data = Inr ''c'' \<and>
   Resolve (Slice 2 1) example_Data = Inr []"
proof -
  have xs: "[''a'', ''b'', ''c''] = segments (File example_Data)"
    by (simp add: example_Data_def segments_example)
  have n: "1 = normalize 1 (int (length [''a'', ''b'', ''c'']))"
    "3 = normalize 3 (int (length [''a'', ''b'', ''c'']))"
    "2 = normalize (- 1) (int (length [''a'', ''b'', ''c'']))"
    "2 = normalize 2 (int (length [''a'', ''b'', ''c'']))"
    by (simp_all only: slice_examples)
  have "Resolve (Slice 1 3) example_Data =
      Inr (Join (slice_of [''a'', ''b'', ''c''] (nat 1) (nat 3)))"
    using slice_Resolve_cases [OF xs n(1) n(2)] by (simp del: Resolve.simps)
  then have a: "Resolve (Slice 1 3) example_Data = Inr ''b/c''"
    by (simp only: slice_examples)
  have "Resolve (Slice (- 1) (- 1)) example_Data = Inr ([''a'', ''b'', ''c''] ! nat 2)"
    using slice_Resolve_cases [OF xs n(3) n(3)] by (simp del: Resolve.simps)
  then have b: "Resolve (Slice (- 1) (- 1)) example_Data = Inr ''c''"
    by (simp only: slice_examples)
  have c: "Resolve (Slice 2 1) example_Data = Inr []"
    using slice_Resolve_cases [OF xs n(4) n(1)] by (simp del: Resolve.simps)
  show ?thesis
    using xs a b c by blast
qed

text \<open>
  A placeholder of ASCII text that is no keyword and that \<^verbatim>\<open>Atoi\<close> does not read as a
  number resolves to the empty string.
\<close>

theorem fragment_Resolve_unknown:
  "list_all ascii name \<Longrightarrow> Atoi name = Inl err \<Longrightarrow>
   ToLower name \<notin> set [levelRun, levelLevel, levelSource, levelModel, levelMime, levelFormat,
     levelType, levelYear, levelDoy, levelMonth, levelDay, levelHour, levelMinShort,
     levelMinLong, levelSecShort, levelSecLong, levelStamp] \<Longrightarrow>
   Resolve (Fragment name) dat = Inr []"
  by (simp add: fragment_Resolve_def)

lemma bogus_unknown:
  "list_all ascii ''bogus''"
  "Atoi ''bogus'' = Inl ErrSyntax" "ToLower ''bogus'' = ''bogus''"
  "ParseResolver ''{bogus}'' = Inr (Path [Fragment ''bogus''])"
  by code_simp+

theorem fragment_Resolve_unknown_witness:
  "list_all ascii ''bogus'' \<and> Atoi ''bogus'' = Inl ErrSyntax \<and>
   Resolve (Fragment ''bogus'') example_Data = Inr []"
proof -
  have k: "ToLower ''bogus'' \<notin> set [levelRun, levelLevel, levelSource, levelModel, levelMime,
     levelFormat, levelType, levelYear, levelDoy, levelMonth, levelDay, levelHour, levelMinShort,
     levelMinLong, levelSecShort, levelSecLong, levelStamp]"
    by (simp add: bogus_unknown(3) level_defs)
  have r: "Resolve (Fragment ''bogus'') example_Data = Inr []"
    using bogus_unknown(1) bogus_unknown(2) k by (rule fragment_Resolve_unknown)
  show ?thesis
    using bogus_unknown(1) bogus_unknown(2) r by (simp only: simp_thms)
qed

section \<open>Where the parser returns its two errors\<close>

lemma index_from_absent: "c \<notin> set s \<Longrightarrow> index_from i s c = - 1"
  by (induction s arbitrary: i) auto

lemma index_from_present: "c \<in> set s \<Longrightarrow> 0 \<le> i \<Longrightarrow> i \<le> index_from i s c"
proof (induction s arbitrary: i)
  case Nil
  then show ?case by simp
next
  case (Cons x s)
  show ?case
  proof (cases "x = c")
    case True
    then show ?thesis by simp
  next
    case False
    with Cons.prems have "c \<in> set s" by simp
    from Cons.IH [OF this, of "i + 1"] Cons.prems(2) False show ?thesis by simp
  qed
qed

text \<open>
  The empty template is the empty resolver, which resolves to the empty string. A
  component that starts with \<open>{}\<close> is the error \<open>empty placeholder\<close>, and a component
  with an opening brace and no closing brace at all is the error
  \<open>missing closing brace\<close>; such a template has no tree.
\<close>

theorem parse_errors:
  "ParseResolver [] = Inr Empty \<and> Resolve Empty dat = Inr [] \<and>
   parse (CHR ''{'' # CHR ''}'' # rest) = Inl ErrEmptyPlaceholder \<and>
   (lcurly \<in> set str \<and> rcurly \<notin> set str \<longrightarrow> parse str = Inl ErrMissingClosingBrace) \<and>
   (parse p = Inl err \<longrightarrow> parse_parts (p # parts) rs = Inl err)"
proof -
  have a: "parse (CHR ''{'' # CHR ''}'' # rest) = Inl ErrEmptyPlaceholder"
    by (simp add: parse_def parse_loop.simps [of "CHR ''{'' # CHR ''}'' # rest" 0] IndexByte_def
        lcurly_def rcurly_def)
  have b: "parse str = Inl ErrMissingClosingBrace" if l: "lcurly \<in> set str" and r: "rcurly \<notin> set str"
  proof -
    from l have ne: "0 < length str" by (cases str) auto
    have s: "0 \<le> IndexByte str lcurly"
      using index_from_present [OF l, of 0] by (simp add: IndexByte_def)
    have "rcurly \<notin> set (drop (nat (IndexByte str lcurly)) str)"
      using r by (auto dest: in_set_dropD)
    then have e: "IndexByte (drop (nat (IndexByte str lcurly)) str) rcurly = - 1"
      by (simp add: IndexByte_def index_from_absent)
    show ?thesis
      using ne s e by (simp add: parse_def parse_loop.simps [of str 0])
  qed
  show ?thesis
    using a b by (simp add: ParseResolver_def)
qed

lemma braces_example: "lcurly \<in> set ''{abc'' \<and> rcurly \<notin> set ''{abc''"
  by code_simp

lemma ParseResolver_unclosed: "ParseResolver ''{abc'' = Inl ErrMissingClosingBrace"
  by code_simp

theorem parse_errors_witness:
  "lcurly \<in> set ''{abc'' \<and> rcurly \<notin> set ''{abc'' \<and> parse ''{abc'' = Inl ErrMissingClosingBrace \<and>
   parse_parts [''{abc'', ''x''] [] = Inl ErrMissingClosingBrace \<and>
   ParseResolver ''{abc'' = Inl ErrMissingClosingBrace"
  using parse_errors [of example_Data "[]" "''{abc''" "''{abc''" ErrMissingClosingBrace "[''x'']" "[]"]
    braces_example ParseResolver_unclosed
  by simp

end
